theory Spec2Isabelle
  imports
    Main
    "HOL-Library.Word"
    "HOL-Library.Char_ord"
    "HOL-Library.List_Lexorder"
    "HOL-Library.Finite_Map"
begin

unbundle bit_operations_syntax

section \<open>The network viewer: record navigation\<close>










section \<open>The network viewer: view parameters\<close>

text \<open>
  A \<open>float32\<close> is its 32-bit pattern. \<open>Defaults\<close> only compares fields with zero and
  stores constants, so no floating-point arithmetic is involved: \<open>x == 0\<close> holds for
  the patterns of \<open>+0\<close> and \<open>-0\<close> and for no other (a NaN differs from everything),
  and the constants \<open>.9\<close>, \<open>.05\<close> and \<open>0.4\<close> are stored as the nearest
  \<open>float32\<close>.
\<close>

type_synonym float32 = "32 word"

definition float32_eq0 :: "float32 \<Rightarrow> bool" where
  "float32_eq0 x \<longleftrightarrow> x = 0x00000000 \<or> x = 0x80000000"

definition float32_0_9 :: float32 where "float32_0_9 = 0x3F666666"
definition float32_0_05 :: float32 where "float32_0_05 = 0x3D4CCCCD"
definition float32_0_4 :: float32 where "float32_0_4 = 0x3ECCCCCD"

text \<open>The struct \<open>netview.Params\<close>; the pointer to the view is an address or nil.\<close>

record netview_Params =
  MaxRecs :: int
  UnitSize :: float32
  LayNmSize :: float32
  ColorMap :: string
  ZeroAlpha :: float32
  NetView_ptr :: "nat option"

definition Defaults :: "netview_Params \<Rightarrow> netview_Params" where
  "Defaults nv =
     (let nv1 = (if MaxRecs nv = 0 then nv\<lparr>MaxRecs := 100\<rparr> else nv);
          nv2 = (if float32_eq0 (UnitSize nv1) then nv1\<lparr>UnitSize := float32_0_9\<rparr> else nv1);
          nv3 = (if float32_eq0 (LayNmSize nv2) then nv2\<lparr>LayNmSize := float32_0_05\<rparr> else nv2);
          nv4 = (if float32_eq0 (ZeroAlpha nv3) then nv3\<lparr>ZeroAlpha := float32_0_4\<rparr> else nv3);
          nv5 = (if ColorMap nv4 = '''' then nv4\<lparr>ColorMap := ''ColdHot''\<rparr> else nv4)
      in nv5)"


section \<open>The network viewer: the list of variables\<close>

text \<open>
  The interfaces \<open>emer.Network\<close>, \<open>emer.Layer\<close> and \<open>emer.Prjn\<close> as far as
  \<open>NetVarsList\<close> calls them: a network is its list of layers (\<open>NLayers\<close> its length,
  \<open>Layer i\<close> its \<open>i\<close>-th element), a layer has its unit variable names and its
  receiving and sending projections, a projection has its synapse variable names. A nil
  interface value is \<open>None\<close>.
\<close>

record Prjn =
  SynVarNames :: "string list"

record Layer =
  UnitVarNames :: "string list"
  RecvPrjns :: "Prjn list"
  SendPrjns :: "Prjn list"

type_synonym Network = "Layer list"

definition NRecvPrjns :: "Layer \<Rightarrow> nat" where
  "NRecvPrjns ly = length (RecvPrjns ly)"

definition NSendPrjns :: "Layer \<Rightarrow> nat" where
  "NSendPrjns ly = length (SendPrjns ly)"

text \<open>The loop of \<open>NetFirstLayPrjn\<close> over the layers, from layer \<open>li\<close> on.\<close>

fun first_prjn_from :: "Layer list \<Rightarrow> Prjn option" where
  "first_prjn_from [] = None"
| "first_prjn_from (ly # rest) =
     (if NRecvPrjns ly > 0 then Some (RecvPrjns ly ! 0)
      else if NSendPrjns ly > 0 then Some (SendPrjns ly ! 0)
      else first_prjn_from rest)"

definition NetFirstLayPrjn :: "Network option \<Rightarrow> Layer option \<times> Prjn option" where
  "NetFirstLayPrjn net =
     (case net of
        None \<Rightarrow> (None, None)
      | Some ls \<Rightarrow>
          if length ls = 0 then (None, None)
          else (Some (ls ! 0), first_prjn_from ls))"

text \<open>
  \<open>NetVarsList\<close> returns nil for a nil network and for one without layers; a nil slice
  is the empty list. After that check \<open>NetFirstLayPrjn\<close> gives layer 0, so that the
  branch of a nil layer is never taken.

  \<open>copy(dst, src)\<close> overwrites the first \<open>min (len dst) (len src)\<close> elements of
  \<open>dst\<close>.
\<close>

definition copy_slice :: "'a list \<Rightarrow> 'a list \<Rightarrow> 'a list" where
  "copy_slice dst src = take (length dst) src @ drop (length src) dst"

text \<open>
  The loop of \<open>NetVarsList\<close> over the synapse variables, by index \<open>pi\<close>. Both
  indices of a step are below the length of \<open>nvars\<close>, which is \<open>st\<close> plus twice the
  number of synapse variables.
\<close>

definition fill_prjnvars :: "nat \<Rightarrow> string list \<Rightarrow> string list \<Rightarrow> string list" where
  "fill_prjnvars st prjnvars nvars =
     fold (\<lambda>pi nv. nv[st + 2 * pi := ''r.'' @ prjnvars ! pi,
                        st + 2 * pi + 1 := ''s.'' @ prjnvars ! pi])
          [0 ..< length prjnvars] nvars"

definition NetVarsList :: "Network option \<Rightarrow> bool \<Rightarrow> string list" where
  "NetVarsList net layEven =
     (case net of
        None \<Rightarrow> []
      | Some ls \<Rightarrow>
          if length ls = 0 then []
          else
            (case NetFirstLayPrjn net of
               (None, prjn) \<Rightarrow> []
             | (Some lay, prjn) \<Rightarrow>
                 let unvars = UnitVarNames lay;
                     prjnvars = (case prjn of None \<Rightarrow> [] | Some p \<Rightarrow> SynVarNames p);
                     ulen = length unvars;
                     ulen = (if layEven \<and> ulen mod 2 \<noteq> 0 then ulen + 1 else ulen);
                     tlen = ulen + 2 * length prjnvars;
                     nvars = copy_slice (replicate tlen []) unvars
                 in fill_prjnvars ulen prjnvars nvars))"

text \<open>The result the documentation describes: an \<open>r.\<close> and an \<open>s.\<close> entry per synapse variable.\<close>

definition prjn_entries :: "string list \<Rightarrow> string list" where
  "prjn_entries prjnvars = concat (map (\<lambda>v. [''r.'' @ v, ''s.'' @ v]) prjnvars)"

definition first_prjnvars :: "Network \<Rightarrow> string list" where
  "first_prjnvars ls = (case first_prjn_from ls of None \<Rightarrow> [] | Some p \<Rightarrow> SynVarNames p)"


section \<open>Package params: the configuration tree\<close>

text \<open>
  Modelled from the spec: the type declarations of package \<open>params\<close> are not among the
  source files. Following the data model of the specification, \<open>Params\<close> is a finite map
  from paths to values, a \<open>Sel\<close> has a selector, a description and its \<open>Params\<close>, a
  \<open>Sheet\<close> is a sequence of \<open>Sel\<close>, \<open>Sheets\<close> is a finite map from names to sheets,
  a \<open>Set\<close> has a name, a description and its \<open>Sheets\<close>, and \<open>Sets\<close> is a sequence
  of \<open>Set\<close>. The field names are those the methods of the source use.
\<close>

type_synonym Params = "(string, string) fmap"

record Sel =
  Sel :: string
  Desc :: string
  Params :: Params

type_synonym Sheet = "Sel list"

type_synonym Sheets = "(string, Sheet) fmap"

record Set =
  Name :: string
  Desc :: string
  Sheets :: Sheets

type_synonym Sets = "Set list"


section \<open>Writers and the order of a range loop\<close>

datatype error =
  ErrNotExist
  | ErrPermission
  | ErrShortWrite
  | SyntaxError
  | UnmarshalTypeError

text \<open>
  An \<open>io.Writer\<close>: the bytes it has accepted, and the number of bytes it still accepts
  (\<open>None\<close> for a \<open>bytes.Buffer\<close>, which accepts everything). A \<open>Write\<close> that
  cannot place all its bytes places what fits and returns an error; \<open>failed\<close> counts
  the calls of \<open>Write\<close> that returned an error.
\<close>

record Writer =
  written :: string
  room :: "nat option"
  failed :: nat

definition Write :: "string \<Rightarrow> Writer \<Rightarrow> error option \<times> Writer" where
  "Write p w =
     (case room w of
        None \<Rightarrow> (None, w\<lparr>written := written w @ p\<rparr>)
      | Some r \<Rightarrow>
          if length p \<le> r
          then (None, w\<lparr>written := written w @ p, room := Some (r - length p)\<rparr>)
          else (Some ErrShortWrite,
                w\<lparr>written := written w @ take r p, room := Some 0, failed := failed w + 1\<rparr>))"

text \<open>
  The methods of the source call \<open>w.Write\<close> as a statement: the result is dropped.
\<close>

definition Write_drop :: "string \<Rightarrow> Writer \<Rightarrow> Writer" where
  "Write_drop p w = snd (Write p w)"

text \<open>
  A \<open>for k := range m\<close> loop visits the keys of a map in an order that the language
  leaves open and that the runtime draws from its random state. The draw is a parameter
  \<open>rng\<close>: from the state \<open>seed\<close> and the keys of the map it gives the order of the
  visit, and the state moves on. A draw is admissible when it lists every key once.
\<close>

type_synonym ranger = "nat \<Rightarrow> string fset \<Rightarrow> string list"

definition range_ok :: "ranger \<Rightarrow> bool" where
  "range_ok rng \<longleftrightarrow> (\<forall>seed ks. distinct (rng seed ks) \<and> fset_of_list (rng seed ks) = ks)"

text \<open>The state of a \<open>WriteGoCode\<close> call: the writer and the runtime's random state.\<close>

record world =
  out :: Writer
  seed :: nat

definition put :: "string \<Rightarrow> world \<Rightarrow> world" where
  "put p s = s\<lparr>out := Write_drop p (out s)\<rparr>"

definition range_keys :: "ranger \<Rightarrow> string fset \<Rightarrow> world \<Rightarrow> string list \<times> world" where
  "range_keys rng ks s = (rng (seed s) ks, s\<lparr>seed := Suc (seed s)\<rparr>)"

text \<open>\<open>indent.TabBytes n\<close>: \<open>n\<close> tab characters. The depth is a nesting level.\<close>

definition TabBytes :: "nat \<Rightarrow> string" where
  "TabBytes n = replicate n (CHR 0x09)"

definition nl :: string where
  "nl = [CHR 0x0A]"

definition dq :: string where
  "dq = [CHR 0x22]"

text \<open>Reading a map at a key gives the zero value when the key is absent.\<close>

definition index_Params :: "Params \<Rightarrow> string \<Rightarrow> string" where
  "index_Params pr pt = (case fmlookup pr pt of None \<Rightarrow> [] | Some pv \<Rightarrow> pv)"

definition index_Sheets :: "Sheets \<Rightarrow> string \<Rightarrow> Sheet" where
  "index_Sheets pr nm = (case fmlookup pr nm of None \<Rightarrow> [] | Some pv \<Rightarrow> pv)"


section \<open>Package params: writing Go initializer code\<close>

text \<open>
  The verb \<open>%q\<close> of \<open>fmt.Sprintf\<close> is the parameter \<open>q\<close> of the methods below.
\<close>

definition WriteGoPrelude :: "string \<Rightarrow> world \<Rightarrow> world" where
  "WriteGoPrelude varNm s =
     (let s = put (''// File generated by params.SaveGoCode'' @ nl @ nl) s;
          s = put (''package main'' @ nl @ nl) s;
          s = put (''import '' @ dq @ ''github.com/emer/emergent/params'' @ dq) s;
          s = put (nl @ nl @ ''var '' @ varNm @ '' = '') s
      in s)"

definition Params_WriteGoCode ::
  "(string \<Rightarrow> string) \<Rightarrow> ranger \<Rightarrow> Params \<Rightarrow> nat \<Rightarrow> world \<Rightarrow> world" where
  "Params_WriteGoCode q rng pr depth s =
     (let s = put (''params.Params{'' @ nl) s;
          depth = depth + 1;
          (paths, s) = range_keys rng (fmdom pr) s;
          paths = sort paths;
          s = fold (\<lambda>pt s.
                let pv = index_Params pr pt;
                    s = put (TabBytes depth) s;
                    s = put (q pt @ '': '' @ q pv @ '','' @ nl) s
                in s) paths s;
          depth = depth - 1;
          s = put (TabBytes depth) s;
          s = put ''}'' s
      in s)"

definition Sel_WriteGoCode ::
  "(string \<Rightarrow> string) \<Rightarrow> ranger \<Rightarrow> Sel \<Rightarrow> nat \<Rightarrow> world \<Rightarrow> world" where
  "Sel_WriteGoCode q rng pr depth s =
     (let s = put (''Sel: '' @ q (Sel pr) @ '', Desc: '' @ q (Sel.Desc pr) @ '','' @ nl) s;
          depth = depth + 1;
          s = put (TabBytes depth) s;
          s = put ''Params: '' s
      in Params_WriteGoCode q rng (Params pr) depth s)"

definition Sheet_WriteGoCode ::
  "(string \<Rightarrow> string) \<Rightarrow> ranger \<Rightarrow> Sheet \<Rightarrow> nat \<Rightarrow> world \<Rightarrow> world" where
  "Sheet_WriteGoCode q rng pr depth s =
     (let s = put (''params.Sheet{'' @ nl) s;
          depth = depth + 1;
          s = fold (\<lambda>pv s.
                let s = put (TabBytes depth) s;
                    s = put ''{'' s;
                    s = Sel_WriteGoCode q rng pv depth s;
                    s = put (''},'' @ nl) s
                in s) pr s;
          depth = depth - 1;
          s = put (TabBytes depth) s;
          s = put (''},'' @ nl) s
      in s)"

definition Sheets_WriteGoCode ::
  "(string \<Rightarrow> string) \<Rightarrow> ranger \<Rightarrow> Sheets \<Rightarrow> nat \<Rightarrow> world \<Rightarrow> world" where
  "Sheets_WriteGoCode q rng pr depth s =
     (let s = put (''params.Sheets{'' @ nl) s;
          depth = depth + 1;
          (nms, s) = range_keys rng (fmdom pr) s;
          nms = sort nms;
          s = fold (\<lambda>nm s.
                let pv = index_Sheets pr nm;
                    s = put (TabBytes depth) s;
                    s = put (q nm @ '': &'') s;
                    s = Sheet_WriteGoCode q rng pv depth s
                in s) nms s;
          depth = depth - 1;
          s = put (TabBytes depth) s;
          s = put ''}'' s
      in s)"

definition Set_WriteGoCode ::
  "(string \<Rightarrow> string) \<Rightarrow> ranger \<Rightarrow> Set \<Rightarrow> nat \<Rightarrow> world \<Rightarrow> world" where
  "Set_WriteGoCode q rng pr depth s =
     (let s = put (''Name: '' @ q (Set.Name pr) @ '', Desc: '' @ q (Set.Desc pr) @ '', Sheets: '') s
      in Sheets_WriteGoCode q rng (Sheets pr) depth s)"

definition Sets_WriteGoCode ::
  "(string \<Rightarrow> string) \<Rightarrow> ranger \<Rightarrow> Sets \<Rightarrow> nat \<Rightarrow> world \<Rightarrow> world" where
  "Sets_WriteGoCode q rng pr depth s =
     (let s = put (''params.Sets{'' @ nl) s;
          depth = depth + 1;
          s = fold (\<lambda>st s.
                let s = put (TabBytes depth) s;
                    s = put ''{'' s;
                    s = Set_WriteGoCode q rng st depth s;
                    s = put (''},'' @ nl) s
                in s) pr s;
          depth = depth - 1;
          s = put (TabBytes depth) s;
          s = put (''}'' @ nl) s
      in s)"

text \<open>\<open>StringGoCode\<close> writes into a fresh \<open>bytes.Buffer\<close> and returns its bytes.\<close>

definition Buffer :: Writer where
  "Buffer = \<lparr>written = [], room = None, failed = 0\<rparr>"

definition Params_StringGoCode :: "(string \<Rightarrow> string) \<Rightarrow> ranger \<Rightarrow> nat \<Rightarrow> Params \<Rightarrow> string" where
  "Params_StringGoCode q rng sd pr =
     written (out (Params_WriteGoCode q rng pr 0 \<lparr>out = Buffer, seed = sd\<rparr>))"

definition Sheets_StringGoCode :: "(string \<Rightarrow> string) \<Rightarrow> ranger \<Rightarrow> nat \<Rightarrow> Sheets \<Rightarrow> string" where
  "Sheets_StringGoCode q rng sd pr =
     written (out (Sheets_WriteGoCode q rng pr 0 \<lparr>out = Buffer, seed = sd\<rparr>))"

definition Sets_StringGoCode :: "(string \<Rightarrow> string) \<Rightarrow> ranger \<Rightarrow> nat \<Rightarrow> Sets \<Rightarrow> string" where
  "Sets_StringGoCode q rng sd pr =
     written (out (Sets_WriteGoCode q rng pr 0 \<lparr>out = Buffer, seed = sd\<rparr>))"


section \<open>The text of the Go initializer code\<close>

text \<open>
  The text that the \<open>WriteGoCode\<close> methods are to produce, with the keys of every map
  in ascending order: the reference against which the methods are compared.
\<close>

definition Params_line :: "(string \<Rightarrow> string) \<Rightarrow> Params \<Rightarrow> nat \<Rightarrow> string \<Rightarrow> string" where
  "Params_line q pr depth pt =
     TabBytes (depth + 1) @ q pt @ '': '' @ q (index_Params pr pt) @ '','' @ nl"

definition Params_text :: "(string \<Rightarrow> string) \<Rightarrow> Params \<Rightarrow> nat \<Rightarrow> string" where
  "Params_text q pr depth =
     ''params.Params{'' @ nl
     @ concat (map (Params_line q pr depth) (sorted_list_of_fset (fmdom pr)))
     @ TabBytes depth @ ''}''"

definition Sel_text :: "(string \<Rightarrow> string) \<Rightarrow> Sel \<Rightarrow> nat \<Rightarrow> string" where
  "Sel_text q pr depth =
     ''Sel: '' @ q (Sel pr) @ '', Desc: '' @ q (Sel.Desc pr) @ '','' @ nl
     @ TabBytes (depth + 1) @ ''Params: '' @ Params_text q (Params pr) (depth + 1)"

definition Sheet_text :: "(string \<Rightarrow> string) \<Rightarrow> Sheet \<Rightarrow> nat \<Rightarrow> string" where
  "Sheet_text q pr depth =
     ''params.Sheet{'' @ nl
     @ concat (map (\<lambda>pv. TabBytes (depth + 1) @ ''{'' @ Sel_text q pv (depth + 1) @ ''},'' @ nl) pr)
     @ TabBytes depth @ ''},'' @ nl"

definition Sheets_line :: "(string \<Rightarrow> string) \<Rightarrow> Sheets \<Rightarrow> nat \<Rightarrow> string \<Rightarrow> string" where
  "Sheets_line q pr depth nm =
     TabBytes (depth + 1) @ q nm @ '': &'' @ Sheet_text q (index_Sheets pr nm) (depth + 1)"

definition Sheets_text :: "(string \<Rightarrow> string) \<Rightarrow> Sheets \<Rightarrow> nat \<Rightarrow> string" where
  "Sheets_text q pr depth =
     ''params.Sheets{'' @ nl
     @ concat (map (Sheets_line q pr depth) (sorted_list_of_fset (fmdom pr)))
     @ TabBytes depth @ ''}''"

definition Set_text :: "(string \<Rightarrow> string) \<Rightarrow> Set \<Rightarrow> nat \<Rightarrow> string" where
  "Set_text q pr depth =
     ''Name: '' @ q (Set.Name pr) @ '', Desc: '' @ q (Set.Desc pr) @ '', Sheets: ''
     @ Sheets_text q (Sheets pr) depth"

definition Sets_text :: "(string \<Rightarrow> string) \<Rightarrow> Sets \<Rightarrow> nat \<Rightarrow> string" where
  "Sets_text q pr depth =
     ''params.Sets{'' @ nl
     @ concat (map (\<lambda>st. TabBytes (depth + 1) @ ''{'' @ Set_text q st (depth + 1) @ ''},'' @ nl) pr)
     @ TabBytes depth @ ''}'' @ nl"

text \<open>
  A step of a method \<open>emits\<close> a text when, on a writer that accepts everything, it
  appends exactly that text and leaves the writer accepting everything.
\<close>

definition emits :: "(world \<Rightarrow> world) \<Rightarrow> string \<Rightarrow> bool" where
  "emits f t \<longleftrightarrow>
     (\<forall>s. room (out s) = None \<longrightarrow>
        written (out (f s)) = written (out s) @ t \<and> room (out (f s)) = None)"


section \<open>The JSON library\<close>

text \<open>
  Package \<open>encoding/json\<close> is not part of the repository. It is modelled by its
  documented behaviour, in two layers. The text layer is a pair of parameters: \<open>enc\<close>
  gives the text that \<open>MarshalIndent\<close> writes for a document, and \<open>dec\<close> reads a
  text as a document, or as nothing when the text is not valid JSON (\<open>Unmarshal\<close>
  checks the syntax of the whole text before it stores anything). The layer between
  documents and Go values is written out below.
\<close>

datatype json =
  JNull
  | JBool bool
  | JNumber string
  | JString string
  | JArray "json list"
  | JObject "(string \<times> json) list"

type_synonym encoder = "json \<Rightarrow> string"

type_synonym decoder = "string \<Rightarrow> json option"

text \<open>
  Marshalling: a map becomes an object with its keys in ascending order, a struct an
  object with its fields in the order of their declaration, a slice an array.
\<close>

definition Params_json :: "Params \<Rightarrow> json" where
  "Params_json pr =
     JObject (map (\<lambda>k. (k, JString (index_Params pr k))) (sorted_list_of_fset (fmdom pr)))"

definition Sel_json :: "Sel \<Rightarrow> json" where
  "Sel_json pr =
     JObject [(''Sel'', JString (Sel pr)), (''Desc'', JString (Sel.Desc pr)),
              (''Params'', Params_json (Params pr))]"

definition Sheet_json :: "Sheet \<Rightarrow> json" where
  "Sheet_json pr = JArray (map Sel_json pr)"

definition Sheets_json :: "Sheets \<Rightarrow> json" where
  "Sheets_json pr =
     JObject (map (\<lambda>k. (k, Sheet_json (index_Sheets pr k))) (sorted_list_of_fset (fmdom pr)))"

definition Set_json :: "Set \<Rightarrow> json" where
  "Set_json pr =
     JObject [(''Name'', JString (Set.Name pr)), (''Desc'', JString (Set.Desc pr)),
              (''Sheets'', Sheets_json (Sheets pr))]"

definition Sets_json :: "Sets \<Rightarrow> json" where
  "Sets_json pr = JArray (map Set_json pr)"

text \<open>
  \<open>MarshalIndent\<close> cannot fail on these types (strings, maps with string keys, slices
  and structs of them); the source notes the error branch as unlikely.
\<close>

definition MarshalIndent :: "encoder \<Rightarrow> json \<Rightarrow> error + string" where
  "MarshalIndent enc j = Inr (enc j)"

text \<open>
  Unmarshalling stores a document into a Go value that already exists. A value of the
  wrong kind is skipped and the decoding goes on; the error returned at the end is the
  first one met.
\<close>

definition first_error :: "error option \<Rightarrow> error option \<Rightarrow> error option" where
  "first_error e1 e2 = (case e1 of None \<Rightarrow> e2 | Some e \<Rightarrow> Some e)"

fun decode_string :: "json \<Rightarrow> string \<Rightarrow> string \<times> error option" where
  "decode_string (JString s) v = (s, None)"
| "decode_string JNull v = (v, None)"
| "decode_string (JBool b) v = (v, Some UnmarshalTypeError)"
| "decode_string (JNumber n) v = (v, Some UnmarshalTypeError)"
| "decode_string (JArray xs) v = (v, Some UnmarshalTypeError)"
| "decode_string (JObject kvs) v = (v, Some UnmarshalTypeError)"

text \<open>
  An object into a map: the map that exists is kept and each member of the object is
  stored into it, its value decoded into a fresh zero value. A null empties the map.
\<close>

fun decode_Params_members :: "(string \<times> json) list \<Rightarrow> Params \<Rightarrow> Params \<times> error option" where
  "decode_Params_members [] m = (m, None)"
| "decode_Params_members ((k, v) # kvs) m =
     (let (s, e1) = decode_string v [];
          (m', e2) = decode_Params_members kvs (fmupd k s m)
      in (m', first_error e1 e2))"

fun decode_Params :: "json \<Rightarrow> Params \<Rightarrow> Params \<times> error option" where
  "decode_Params (JObject kvs) m = decode_Params_members kvs m"
| "decode_Params JNull m = (fmempty, None)"
| "decode_Params (JBool b) m = (m, Some UnmarshalTypeError)"
| "decode_Params (JNumber n) m = (m, Some UnmarshalTypeError)"
| "decode_Params (JString s) m = (m, Some UnmarshalTypeError)"
| "decode_Params (JArray xs) m = (m, Some UnmarshalTypeError)"

text \<open>
  An object into a struct: a member is stored into the field whose name equals its key,
  letter case aside; other members are skipped, and a field without a member keeps its
  value. A null leaves the struct as it is.
\<close>

definition lower :: "char \<Rightarrow> char" where
  "lower c = (if CHR ''A'' \<le> c \<and> c \<le> CHR ''Z'' then char_of (of_char c + (32::nat)) else c)"

definition equal_fold :: "string \<Rightarrow> string \<Rightarrow> bool" where
  "equal_fold name key \<longleftrightarrow> map lower key = map lower name"

definition decode_Sel_member :: "string \<Rightarrow> json \<Rightarrow> Sel \<Rightarrow> Sel \<times> error option" where
  "decode_Sel_member k v pr =
     (if equal_fold ''Sel'' k then
        (let (s, e) = decode_string v (Sel pr) in (pr\<lparr>Sel := s\<rparr>, e))
      else if equal_fold ''Desc'' k then
        (let (s, e) = decode_string v (Sel.Desc pr) in (pr\<lparr>Sel.Desc := s\<rparr>, e))
      else if equal_fold ''Params'' k then
        (let (m, e) = decode_Params v (Params pr) in (pr\<lparr>Params := m\<rparr>, e))
      else (pr, None))"

fun decode_Sel_members :: "(string \<times> json) list \<Rightarrow> Sel \<Rightarrow> Sel \<times> error option" where
  "decode_Sel_members [] pr = (pr, None)"
| "decode_Sel_members ((k, v) # kvs) pr =
     (let (pr1, e1) = decode_Sel_member k v pr;
          (pr2, e2) = decode_Sel_members kvs pr1
      in (pr2, first_error e1 e2))"

fun decode_Sel :: "json \<Rightarrow> Sel \<Rightarrow> Sel \<times> error option" where
  "decode_Sel (JObject kvs) pr = decode_Sel_members kvs pr"
| "decode_Sel JNull pr = (pr, None)"
| "decode_Sel (JBool b) pr = (pr, Some UnmarshalTypeError)"
| "decode_Sel (JNumber n) pr = (pr, Some UnmarshalTypeError)"
| "decode_Sel (JString s) pr = (pr, Some UnmarshalTypeError)"
| "decode_Sel (JArray xs) pr = (pr, Some UnmarshalTypeError)"

text \<open>
  An array into a slice: the length of the slice is reset to zero and each element of
  the array is appended, decoded into a fresh zero value. A null empties the slice.
\<close>

definition zero_Sel :: Sel where
  "zero_Sel = \<lparr>Sel = [], Desc = [], Params = fmempty\<rparr>"

fun decode_Sheet_elems :: "json list \<Rightarrow> Sheet \<times> error option" where
  "decode_Sheet_elems [] = ([], None)"
| "decode_Sheet_elems (x # xs) =
     (let (pv, e1) = decode_Sel x zero_Sel;
          (rest, e2) = decode_Sheet_elems xs
      in (pv # rest, first_error e1 e2))"

fun decode_Sheet :: "json \<Rightarrow> Sheet \<Rightarrow> Sheet \<times> error option" where
  "decode_Sheet (JArray xs) pr = decode_Sheet_elems xs"
| "decode_Sheet JNull pr = ([], None)"
| "decode_Sheet (JBool b) pr = (pr, Some UnmarshalTypeError)"
| "decode_Sheet (JNumber n) pr = (pr, Some UnmarshalTypeError)"
| "decode_Sheet (JString s) pr = (pr, Some UnmarshalTypeError)"
| "decode_Sheet (JObject kvs) pr = (pr, Some UnmarshalTypeError)"

fun decode_Sheets_members :: "(string \<times> json) list \<Rightarrow> Sheets \<Rightarrow> Sheets \<times> error option" where
  "decode_Sheets_members [] m = (m, None)"
| "decode_Sheets_members ((k, v) # kvs) m =
     (let (sh, e1) = decode_Sheet v [];
          (m', e2) = decode_Sheets_members kvs (fmupd k sh m)
      in (m', first_error e1 e2))"

fun decode_Sheets :: "json \<Rightarrow> Sheets \<Rightarrow> Sheets \<times> error option" where
  "decode_Sheets (JObject kvs) m = decode_Sheets_members kvs m"
| "decode_Sheets JNull m = (fmempty, None)"
| "decode_Sheets (JBool b) m = (m, Some UnmarshalTypeError)"
| "decode_Sheets (JNumber n) m = (m, Some UnmarshalTypeError)"
| "decode_Sheets (JString s) m = (m, Some UnmarshalTypeError)"
| "decode_Sheets (JArray xs) m = (m, Some UnmarshalTypeError)"

definition decode_Set_member :: "string \<Rightarrow> json \<Rightarrow> Set \<Rightarrow> Set \<times> error option" where
  "decode_Set_member k v pr =
     (if equal_fold ''Name'' k then
        (let (s, e) = decode_string v (Set.Name pr) in (pr\<lparr>Set.Name := s\<rparr>, e))
      else if equal_fold ''Desc'' k then
        (let (s, e) = decode_string v (Set.Desc pr) in (pr\<lparr>Set.Desc := s\<rparr>, e))
      else if equal_fold ''Sheets'' k then
        (let (m, e) = decode_Sheets v (Sheets pr) in (pr\<lparr>Sheets := m\<rparr>, e))
      else (pr, None))"

fun decode_Set_members :: "(string \<times> json) list \<Rightarrow> Set \<Rightarrow> Set \<times> error option" where
  "decode_Set_members [] pr = (pr, None)"
| "decode_Set_members ((k, v) # kvs) pr =
     (let (pr1, e1) = decode_Set_member k v pr;
          (pr2, e2) = decode_Set_members kvs pr1
      in (pr2, first_error e1 e2))"

fun decode_Set :: "json \<Rightarrow> Set \<Rightarrow> Set \<times> error option" where
  "decode_Set (JObject kvs) pr = decode_Set_members kvs pr"
| "decode_Set JNull pr = (pr, None)"
| "decode_Set (JBool b) pr = (pr, Some UnmarshalTypeError)"
| "decode_Set (JNumber n) pr = (pr, Some UnmarshalTypeError)"
| "decode_Set (JString s) pr = (pr, Some UnmarshalTypeError)"
| "decode_Set (JArray xs) pr = (pr, Some UnmarshalTypeError)"




text \<open>
  \<open>json.Unmarshal(b, pr)\<close> with the decoding of the type of \<open>pr\<close>: a text that is
  not valid JSON is refused before anything is stored.
\<close>

definition Unmarshal ::
  "decoder \<Rightarrow> (json \<Rightarrow> 'a \<Rightarrow> 'a \<times> error option) \<Rightarrow> string \<Rightarrow> 'a \<Rightarrow> 'a \<times> error option" where
  "Unmarshal dec decode b pr =
     (case dec b of None \<Rightarrow> (pr, Some SyntaxError) | Some j \<Rightarrow> decode j pr)"

text \<open>A decoder given by a table of texts and their documents, for examples.\<close>

definition table_decoder :: "(string \<times> json) list \<Rightarrow> decoder" where
  "table_decoder tbl b = map_of tbl b"


section \<open>Files\<close>

text \<open>
  The file system as far as the package uses it: the contents of the files by name, the
  names that cannot be opened, the number of bytes that can still be written, and a
  count of the input and output operations that returned an error.
\<close>

record FS =
  files :: "(string, string) fmap"
  denied :: "string list"
  quota :: nat
  io_failed :: nat

definition ReadFile :: "string \<Rightarrow> FS \<Rightarrow> error + string" where
  "ReadFile filename fs =
     (if filename \<in> set (denied fs) then Inl ErrPermission
      else case fmlookup (files fs) filename of
             None \<Rightarrow> Inl ErrNotExist
           | Some b \<Rightarrow> Inr b)"

text \<open>
  \<open>os.Create\<close> opens the file for writing, creating or truncating it. The open file is
  a writer with the room the device has left.
\<close>

definition os_Create :: "string \<Rightarrow> FS \<Rightarrow> (error + Writer) \<times> FS" where
  "os_Create filename fs =
     (if filename \<in> set (denied fs) then (Inl ErrPermission, fs\<lparr>io_failed := io_failed fs + 1\<rparr>)
      else (Inr \<lparr>written = [], room = Some (quota fs), failed = 0\<rparr>,
            fs\<lparr>files := fmupd filename [] (files fs)\<rparr>))"

text \<open>Closing the file leaves what was written in the file system.\<close>

definition os_Close :: "string \<Rightarrow> Writer \<Rightarrow> FS \<Rightarrow> FS" where
  "os_Close filename fp fs =
     fs\<lparr>files := fmupd filename (written fp) (files fs),
        quota := (case room fp of None \<Rightarrow> quota fs | Some r \<Rightarrow> r),
        io_failed := io_failed fs + failed fp\<rparr>"

definition WriteFile :: "string \<Rightarrow> string \<Rightarrow> FS \<Rightarrow> error option \<times> FS" where
  "WriteFile filename b fs =
     (case os_Create filename fs of
        (Inl err, fs1) \<Rightarrow> (Some err, fs1)
      | (Inr fp, fs1) \<Rightarrow>
          let (err, fp1) = Write b fp
          in (err, os_Close filename fp1 fs1))"


section \<open>Package params: opening and saving\<close>


definition Sel_OpenJSON :: "decoder \<Rightarrow> string \<Rightarrow> Sel \<Rightarrow> FS \<Rightarrow> Sel \<times> error option" where
  "Sel_OpenJSON dec filename pr fs =
     (case ReadFile filename fs of
        Inl err \<Rightarrow> (pr, Some err)
      | Inr b \<Rightarrow> Unmarshal dec decode_Sel b pr)"



definition Set_OpenJSON :: "decoder \<Rightarrow> string \<Rightarrow> Set \<Rightarrow> FS \<Rightarrow> Set \<times> error option" where
  "Set_OpenJSON dec filename pr fs =
     (case ReadFile filename fs of
        Inl err \<Rightarrow> (pr, Some err)
      | Inr b \<Rightarrow> Unmarshal dec decode_Set b pr)"


definition Params_SaveJSON :: "encoder \<Rightarrow> string \<Rightarrow> Params \<Rightarrow> FS \<Rightarrow> error option \<times> FS" where
  "Params_SaveJSON enc filename pr fs =
     (case MarshalIndent enc (Params_json pr) of
        Inl err \<Rightarrow> (Some err, fs)
      | Inr b \<Rightarrow> WriteFile filename b fs)"

definition Sel_SaveJSON :: "encoder \<Rightarrow> string \<Rightarrow> Sel \<Rightarrow> FS \<Rightarrow> error option \<times> FS" where
  "Sel_SaveJSON enc filename pr fs =
     (case MarshalIndent enc (Sel_json pr) of
        Inl err \<Rightarrow> (Some err, fs)
      | Inr b \<Rightarrow> WriteFile filename b fs)"

definition Sheet_SaveJSON :: "encoder \<Rightarrow> string \<Rightarrow> Sheet \<Rightarrow> FS \<Rightarrow> error option \<times> FS" where
  "Sheet_SaveJSON enc filename pr fs =
     (case MarshalIndent enc (Sheet_json pr) of
        Inl err \<Rightarrow> (Some err, fs)
      | Inr b \<Rightarrow> WriteFile filename b fs)"

definition Sheets_SaveJSON :: "encoder \<Rightarrow> string \<Rightarrow> Sheets \<Rightarrow> FS \<Rightarrow> error option \<times> FS" where
  "Sheets_SaveJSON enc filename pr fs =
     (case MarshalIndent enc (Sheets_json pr) of
        Inl err \<Rightarrow> (Some err, fs)
      | Inr b \<Rightarrow> WriteFile filename b fs)"

definition Set_SaveJSON :: "encoder \<Rightarrow> string \<Rightarrow> Set \<Rightarrow> FS \<Rightarrow> error option \<times> FS" where
  "Set_SaveJSON enc filename pr fs =
     (case MarshalIndent enc (Set_json pr) of
        Inl err \<Rightarrow> (Some err, fs)
      | Inr b \<Rightarrow> WriteFile filename b fs)"

definition Sets_SaveJSON :: "encoder \<Rightarrow> string \<Rightarrow> Sets \<Rightarrow> FS \<Rightarrow> error option \<times> FS" where
  "Sets_SaveJSON enc filename pr fs =
     (case MarshalIndent enc (Sets_json pr) of
        Inl err \<Rightarrow> (Some err, fs)
      | Inr b \<Rightarrow> WriteFile filename b fs)"

text \<open>
  \<open>SaveGoCode\<close>: the body that the six methods share is \<open>write\<close>, the calls of
  \<open>WriteGoPrelude\<close> and \<open>WriteGoCode\<close> on the open file; \<open>sd\<close> is the random state
  of the runtime at the call. The deferred \<open>fp.Close()\<close> runs when the method returns.
\<close>

definition SaveGoCode_with :: "(world \<Rightarrow> world) \<Rightarrow> string \<Rightarrow> nat \<Rightarrow> FS \<Rightarrow> error option \<times> FS" where
  "SaveGoCode_with write filename sd fs =
     (case os_Create filename fs of
        (Inl err, fs1) \<Rightarrow> (Some err, fs1)
      | (Inr fp, fs1) \<Rightarrow>
          let s = write \<lparr>out = fp, seed = sd\<rparr>
          in (None, os_Close filename (out s) fs1))"

definition Params_SaveGoCode ::
  "(string \<Rightarrow> string) \<Rightarrow> ranger \<Rightarrow> string \<Rightarrow> Params \<Rightarrow> nat \<Rightarrow> FS \<Rightarrow> error option \<times> FS" where
  "Params_SaveGoCode q rng filename pr sd fs =
     SaveGoCode_with (\<lambda>s. Params_WriteGoCode q rng pr 0 (WriteGoPrelude ''SavedParams'' s))
       filename sd fs"

definition Sel_SaveGoCode ::
  "(string \<Rightarrow> string) \<Rightarrow> ranger \<Rightarrow> string \<Rightarrow> Sel \<Rightarrow> nat \<Rightarrow> FS \<Rightarrow> error option \<times> FS" where
  "Sel_SaveGoCode q rng filename pr sd fs =
     SaveGoCode_with (\<lambda>s. Sel_WriteGoCode q rng pr 0 (WriteGoPrelude ''SavedParamsSel'' s))
       filename sd fs"

definition Sheet_SaveGoCode ::
  "(string \<Rightarrow> string) \<Rightarrow> ranger \<Rightarrow> string \<Rightarrow> Sheet \<Rightarrow> nat \<Rightarrow> FS \<Rightarrow> error option \<times> FS" where
  "Sheet_SaveGoCode q rng filename pr sd fs =
     SaveGoCode_with (\<lambda>s. Sheet_WriteGoCode q rng pr 0 (WriteGoPrelude ''SavedParamsSheet'' s))
       filename sd fs"

definition Sheets_SaveGoCode ::
  "(string \<Rightarrow> string) \<Rightarrow> ranger \<Rightarrow> string \<Rightarrow> Sheets \<Rightarrow> nat \<Rightarrow> FS \<Rightarrow> error option \<times> FS" where
  "Sheets_SaveGoCode q rng filename pr sd fs =
     SaveGoCode_with (\<lambda>s. Sheets_WriteGoCode q rng pr 0 (WriteGoPrelude ''SavedParamsSheets'' s))
       filename sd fs"

definition Set_SaveGoCode ::
  "(string \<Rightarrow> string) \<Rightarrow> ranger \<Rightarrow> string \<Rightarrow> Set \<Rightarrow> nat \<Rightarrow> FS \<Rightarrow> error option \<times> FS" where
  "Set_SaveGoCode q rng filename pr sd fs =
     SaveGoCode_with (\<lambda>s. Set_WriteGoCode q rng pr 0 (WriteGoPrelude ''SavedParamsSet'' s))
       filename sd fs"

definition Sets_SaveGoCode ::
  "(string \<Rightarrow> string) \<Rightarrow> ranger \<Rightarrow> string \<Rightarrow> Sets \<Rightarrow> nat \<Rightarrow> FS \<Rightarrow> error option \<times> FS" where
  "Sets_SaveGoCode q rng filename pr sd fs =
     SaveGoCode_with (\<lambda>s. Sets_WriteGoCode q rng pr 0 (WriteGoPrelude ''SavedParamsSets'' s))
       filename sd fs"


text \<open>A draw that visits the keys in descending order, and a plain quoting, for examples.\<close>

definition descending :: ranger where
  "descending sd ks = rev (sorted_list_of_fset ks)"

definition quoted :: "string \<Rightarrow> string" where
  "quoted s = dq @ s @ dq"


section \<open>Examples\<close>

text \<open>Values, files and library parameters used to run the definitions on concrete inputs.\<close>

definition ascending :: ranger where
  "ascending sd ks = sorted_list_of_fset ks"

definition example_Params :: Params where
  "example_Params = fmap_of_list [(''Lrate'', ''0.05''), (''Gain'', ''1.5'')]"

definition example_Sel :: Sel where
  "example_Sel = \<lparr>Sel = ''Layer'', Desc = ''all layers'', Params = example_Params\<rparr>"

definition example_Sheets :: Sheets where
  "example_Sheets = fmap_of_list [(''Network'', [example_Sel]), (''Env'', [])]"

definition example_Set :: Set where
  "example_Set = \<lparr>Name = ''Base'', Desc = ''baseline'', Sheets = example_Sheets\<rparr>"

definition example_Sets :: Sets where
  "example_Sets = [example_Set]"


text \<open>A selector held in memory before a load, a file with another selector, and its document.\<close>

definition old_Sel :: Sel where
  "old_Sel = \<lparr>Sel = ''Hidden'', Desc = ''old'', Params = fmap_of_list [(''Gain'', ''1.5'')]\<rparr>"

definition sel_file_text :: string where
  \<open>sel_file_text = ''{"Sel": "Layer", "Desc": "", "Params": {"Lrate": "0.05"}}''\<close>

definition sel_file_json :: json where
  "sel_file_json =
     JObject [(''Sel'', JString ''Layer''), (''Desc'', JString ''''),
              (''Params'', JObject [(''Lrate'', JString ''0.05'')])]"

definition old_Set :: Set where
  "old_Set = \<lparr>Name = ''Old'', Desc = ''old'', Sheets = fmap_of_list [(''Env'', [])]\<rparr>"

definition set_file_text :: string where
  \<open>set_file_text = ''{"Name": "Base", "Desc": "", "Sheets": {"Network": []}}''\<close>

definition set_file_json :: json where
  "set_file_json =
     JObject [(''Name'', JString ''Base''), (''Desc'', JString ''''),
              (''Sheets'', JObject [(''Network'', JArray [])])]"

text \<open>A file whose text is valid JSON with a number where a string is expected.\<close>

definition bad_file_text :: string where
  \<open>bad_file_text = ''{"Gain": "1.5", "Lrate": 0.05}''\<close>

definition bad_file_json :: json where
  "bad_file_json = JObject [(''Gain'', JString ''1.5''), (''Lrate'', JNumber ''0.05'')]"

definition example_decoder :: decoder where
  "example_decoder =
     table_decoder [(sel_file_text, sel_file_json), (set_file_text, set_file_json),
                    (bad_file_text, bad_file_json)]"

definition files_FS :: FS where
  "files_FS =
     \<lparr>files = fmap_of_list [(''sel.params'', sel_file_text), (''set.params'', set_file_text),
                             (''bad.params'', bad_file_text)],
      denied = [], quota = 1000, io_failed = 0\<rparr>"




text \<open>A device with no room left.\<close>

definition full_FS :: FS where
  "full_FS = \<lparr>files = fmempty, denied = [], quota = 0, io_failed = 0\<rparr>"


section \<open>Applying a sheet to a target\<close>

text \<open>
  Modelled from the spec: the source files hold the declaration of \<open>ApplyParams\<close> in
  the \<open>Layer\<close> interface, and neither the method \<open>Apply\<close> of a sheet nor an
  implementation of \<open>ApplyParams\<close>. What follows is the Applier of the specification
  (its section 4.2, with the selector grammar of section 3 and the target of section 4.1).

  A target exposes its type name, its instance name and its class tags, and leaf fields
  addressed by path. A leaf field is numeric, boolean or an enumeration; the engine does
  not compute with a number, it checks that the string is one.
\<close>

datatype field =
  Numeric string
  | Boolean bool
  | Enum "string list" string

record Target =
  TypeName :: string
  Name :: string
  Class :: "string list"
  Fields :: "(string, field) fmap"

definition is_digit :: "char \<Rightarrow> bool" where
  "is_digit c \<longleftrightarrow> CHR ''0'' \<le> c \<and> c \<le> CHR ''9''"

definition is_number :: "string \<Rightarrow> bool" where
  "is_number s =
     (let u = (case s of [] \<Rightarrow> [] | c # cs \<Rightarrow> if c = CHR ''-'' \<or> c = CHR ''+'' then cs else s);
          ip = takeWhile is_digit u;
          r = dropWhile is_digit u
      in ip \<noteq> [] \<and>
         (case r of [] \<Rightarrow> True | c # fp \<Rightarrow> c = CHR ''.'' \<and> fp \<noteq> [] \<and> list_all is_digit fp))"

text \<open>Converting a string to the scalar type of the destination field.\<close>

fun convert :: "field \<Rightarrow> string \<Rightarrow> field option" where
  "convert (Numeric old) s = (if is_number s then Some (Numeric s) else None)"
| "convert (Boolean old) s =
     (if s = ''true'' then Some (Boolean True)
      else if s = ''false'' then Some (Boolean False)
      else None)"
| "convert (Enum names old) s = (if s \<in> set names then Some (Enum names s) else None)"

text \<open>
  The three kinds of selector pattern: \<open>#name\<close> matches the instance name, \<open>.class\<close>
  a class tag, a bare identifier the type name. Specificity: type below class below name.
\<close>

datatype sel_kind = ByType | ByClass | ByName

fun sel_kind_of :: "string \<Rightarrow> sel_kind \<times> string" where
  "sel_kind_of [] = (ByType, [])"
| "sel_kind_of (c # cs) =
     (if c = CHR ''#'' then (ByName, cs)
      else if c = CHR ''.'' then (ByClass, cs)
      else (ByType, c # cs))"

fun specificity :: "sel_kind \<Rightarrow> nat" where
  "specificity ByType = 0"
| "specificity ByClass = 1"
| "specificity ByName = 2"

definition Sel_matches :: "Sel \<Rightarrow> Target \<Rightarrow> bool" where
  "Sel_matches sl tg =
     (case sel_kind_of (Sel sl) of
        (ByType, ident) \<Rightarrow> ident = TypeName tg
      | (ByClass, ident) \<Rightarrow> ident \<in> set (Class tg)
      | (ByName, ident) \<Rightarrow> ident = Target.Name tg)"

text \<open>
  The working map of step 2: per path the specificity and the value of the match that
  holds it. A later match replaces an earlier one at equal or higher specificity.
\<close>

type_synonym working = "(string, nat \<times> string) fmap"

definition merge_path :: "nat \<Rightarrow> Params \<Rightarrow> string \<Rightarrow> working \<Rightarrow> working" where
  "merge_path sp pr pt m =
     (case fmlookup m pt of
        None \<Rightarrow> fmupd pt (sp, index_Params pr pt) m
      | Some (sp0, v0) \<Rightarrow> if sp0 \<le> sp then fmupd pt (sp, index_Params pr pt) m else m)"

definition merge_Sel :: "Sel \<Rightarrow> working \<Rightarrow> working" where
  "merge_Sel sl m =
     fold (merge_path (specificity (fst (sel_kind_of (Sel sl)))) (Params sl))
          (sorted_list_of_fset (fmdom (Params sl))) m"

definition resolve :: "Sheet \<Rightarrow> Target \<Rightarrow> working" where
  "resolve sheet tg = fold (\<lambda>sl m. if Sel_matches sl tg then merge_Sel sl m else m) sheet fmempty"

definition resolved_value :: "working \<Rightarrow> string \<Rightarrow> string" where
  "resolved_value m pt = (case fmlookup m pt of None \<Rightarrow> [] | Some (sp, v) \<Rightarrow> v)"

text \<open>
  Steps 3 to 5: each path of the working map is resolved against the fields of the
  target and assigned. A path that does not resolve, or a value that does not convert,
  is recorded and the pass goes on with the next path.
\<close>

record outcome =
  changed :: bool
  failures :: "string list"
  target :: Target
  report :: "string list"

definition assign_path :: "bool \<Rightarrow> working \<Rightarrow> string \<Rightarrow> outcome \<Rightarrow> outcome" where
  "assign_path reportMode m pt oc =
     (case fmlookup (Fields (target oc)) pt of
        None \<Rightarrow> oc\<lparr>failures := failures oc @ [pt]\<rparr>
      | Some f \<Rightarrow>
          (case convert f (resolved_value m pt) of
             None \<Rightarrow> oc\<lparr>failures := failures oc @ [pt]\<rparr>
           | Some f' \<Rightarrow>
               oc\<lparr>changed := True,
                  target := (target oc)\<lparr>Fields := fmupd pt f' (Fields (target oc))\<rparr>,
                  report := (if reportMode
                             then report oc @ [pt @ '' = '' @ resolved_value m pt]
                             else report oc)\<rparr>))"

text \<open>
  The aggregated error lists the failed paths; there is no error when none failed.
\<close>

definition Apply :: "Sheet \<Rightarrow> Target \<Rightarrow> bool \<Rightarrow> bool \<times> string list option \<times> Target \<times> string list" where
  "Apply sheet tg reportMode =
     (let m = resolve sheet tg;
          oc = fold (assign_path reportMode m) (sorted_list_of_fset (fmdom m))
                 \<lparr>changed = False, failures = [], target = tg, report = []\<rparr>
      in (changed oc, (if failures oc = [] then None else Some (failures oc)), target oc, report oc))"

text \<open>
  What a path of the working map would assign to the target as it was before the pass:
  the converted field, or nothing when the path does not resolve or the value does not
  convert.
\<close>

definition assigned :: "Target \<Rightarrow> working \<Rightarrow> string \<Rightarrow> field option" where
  "assigned tg m pt =
     (case fmlookup (Fields tg) pt of None \<Rightarrow> None | Some f \<Rightarrow> convert f (resolved_value m pt))"

definition settable :: "Target \<Rightarrow> working \<Rightarrow> string \<Rightarrow> bool" where
  "settable tg m pt \<longleftrightarrow> assigned tg m pt \<noteq> None"

text \<open>
  The target and the sheet of the partial-failure test of the specification: two
  selectors that both match, one with a path the target has, one with a path it lacks.
\<close>

definition example_Target :: Target where
  "example_Target =
     \<lparr>TypeName = ''Layer'', Name = ''Hidden1'', Class = [''Fast''],
      Fields = fmap_of_list [(''Lrate'', Numeric ''0.01''), (''On'', Boolean False)]\<rparr>"

definition example_Sheet :: Sheet where
  "example_Sheet =
     [\<lparr>Sel = ''Layer'', Desc = '''', Params = fmap_of_list [(''Lrate'', ''0.05'')]\<rparr>,
      \<lparr>Sel = ''.Fast'', Desc = '''', Params = fmap_of_list [(''Gain'', ''2'')]\<rparr>]"


section \<open>Record navigation keeps the record number in range\<close>









section \<open>Defaults of the view parameters\<close>

lemma float32_defaults_nonzero:
  "\<not> float32_eq0 float32_0_9" "\<not> float32_eq0 float32_0_05" "\<not> float32_eq0 float32_0_4"
  by (simp_all add: float32_eq0_def float32_0_9_def float32_0_05_def float32_0_4_def)

lemma Defaults_fields:
  "MaxRecs (Defaults nv) = (if MaxRecs nv = 0 then 100 else MaxRecs nv)"
  "UnitSize (Defaults nv) = (if float32_eq0 (UnitSize nv) then float32_0_9 else UnitSize nv)"
  "LayNmSize (Defaults nv) = (if float32_eq0 (LayNmSize nv) then float32_0_05 else LayNmSize nv)"
  "ColorMap (Defaults nv) = (if ColorMap nv = '''' then ''ColdHot'' else ColorMap nv)"
  "ZeroAlpha (Defaults nv) = (if float32_eq0 (ZeroAlpha nv) then float32_0_4 else ZeroAlpha nv)"
  "NetView_ptr (Defaults nv) = NetView_ptr nv"
  "netview_Params.more (Defaults nv) = netview_Params.more nv"
  by (simp_all add: Defaults_def Let_def)

lemma Defaults_twice_fields:
  "MaxRecs (Defaults (Defaults nv)) = MaxRecs (Defaults nv)"
  "UnitSize (Defaults (Defaults nv)) = UnitSize (Defaults nv)"
  "LayNmSize (Defaults (Defaults nv)) = LayNmSize (Defaults nv)"
  "ColorMap (Defaults (Defaults nv)) = ColorMap (Defaults nv)"
  "ZeroAlpha (Defaults (Defaults nv)) = ZeroAlpha (Defaults nv)"
  "NetView_ptr (Defaults (Defaults nv)) = NetView_ptr (Defaults nv)"
  by (auto simp: Defaults_fields float32_defaults_nonzero)

text \<open>
  Claim C9. \<open>Defaults\<close> stores a default in a field only when the field compares equal
  to zero (the empty string for \<open>ColorMap\<close>); every other field, and the pointer to
  the view, keeps its value, and a second call changes nothing more.
\<close>

theorem Defaults_only_zero_fields:
  "Defaults nv =
     \<lparr>MaxRecs = (if MaxRecs nv = 0 then 100 else MaxRecs nv),
      UnitSize = (if float32_eq0 (UnitSize nv) then float32_0_9 else UnitSize nv),
      LayNmSize = (if float32_eq0 (LayNmSize nv) then float32_0_05 else LayNmSize nv),
      ColorMap = (if ColorMap nv = '''' then ''ColdHot'' else ColorMap nv),
      ZeroAlpha = (if float32_eq0 (ZeroAlpha nv) then float32_0_4 else ZeroAlpha nv),
      NetView_ptr = NetView_ptr nv\<rparr>
   \<and> Defaults (Defaults nv) = Defaults nv"
proof
  show "Defaults nv =
     \<lparr>MaxRecs = (if MaxRecs nv = 0 then 100 else MaxRecs nv),
      UnitSize = (if float32_eq0 (UnitSize nv) then float32_0_9 else UnitSize nv),
      LayNmSize = (if float32_eq0 (LayNmSize nv) then float32_0_05 else LayNmSize nv),
      ColorMap = (if ColorMap nv = '''' then ''ColdHot'' else ColorMap nv),
      ZeroAlpha = (if float32_eq0 (ZeroAlpha nv) then float32_0_4 else ZeroAlpha nv),
      NetView_ptr = NetView_ptr nv\<rparr>"
    by (rule netview_Params.equality) (simp_all add: Defaults_fields)
  show "Defaults (Defaults nv) = Defaults nv"
    by (rule netview_Params.equality) (simp_all add: Defaults_twice_fields Defaults_fields(7))
qed


section \<open>The list of variables of a network\<close>

lemma fold_fill_step:
  "length nvars = st + 2 * length pv + k \<Longrightarrow> n \<le> length pv \<Longrightarrow>
   take st (fold (\<lambda>pi nv. nv[st + 2 * pi := ''r.'' @ pv ! pi, st + 2 * pi + 1 := ''s.'' @ pv ! pi])
          [0 ..< n] nvars) = take st nvars \<and>
   length (fold (\<lambda>pi nv. nv[st + 2 * pi := ''r.'' @ pv ! pi, st + 2 * pi + 1 := ''s.'' @ pv ! pi])
          [0 ..< n] nvars) = length nvars \<and>
   take (2 * n) (drop st (fold (\<lambda>pi nv. nv[st + 2 * pi := ''r.'' @ pv ! pi, st + 2 * pi + 1 := ''s.'' @ pv ! pi])
          [0 ..< n] nvars)) = prjn_entries (take n pv)"
proof (induction n)
  case 0
  then show ?case by (simp add: prjn_entries_def)
next
  case (Suc n)
  let ?f = "\<lambda>pi nv. nv[st + 2 * pi := ''r.'' @ pv ! pi, st + 2 * pi + 1 := ''s.'' @ pv ! pi]"
  let ?m = "fold ?f [0 ..< n] nvars"
  from Suc have ih: "take st ?m = take st nvars" "length ?m = length nvars"
    "take (2 * n) (drop st ?m) = prjn_entries (take n pv)"
    by simp_all
  have n: "n < length pv" using Suc.prems by simp
  have step: "fold ?f [0 ..< Suc n] nvars = ?m[st + 2 * n := ''r.'' @ pv ! n, st + 2 * n + 1 := ''s.'' @ pv ! n]"
    by simp
  have len: "st + 2 * n + 1 < length ?m"
    using ih(2) Suc.prems n by simp
  have d: "drop st (?m[st + 2 * n := ''r.'' @ pv ! n, st + 2 * n + 1 := ''s.'' @ pv ! n])
         = (drop st ?m)[2 * n := ''r.'' @ pv ! n, 2 * n + 1 := ''s.'' @ pv ! n]"
    by (simp add: drop_update_swap)
  have l2: "2 * n + 1 < length (drop st ?m)" using len by simp
  have t: "take (2 * Suc n) ((drop st ?m)[2 * n := ''r.'' @ pv ! n, 2 * n + 1 := ''s.'' @ pv ! n])
         = take (2 * n) (drop st ?m) @ [''r.'' @ pv ! n, ''s.'' @ pv ! n]"
    using l2 by (simp add: list_eq_iff_nth_eq nth_append nth_list_update less_Suc_eq)
  have p: "prjn_entries (take (Suc n) pv) = prjn_entries (take n pv) @ [''r.'' @ pv ! n, ''s.'' @ pv ! n]"
    using n by (simp add: prjn_entries_def take_Suc_conv_app_nth)
  show ?case
    unfolding step using ih d t p by simp
qed

lemma fill_prjnvars_eq:
  assumes "length nvars = st + 2 * length pv"
  shows "fill_prjnvars st pv nvars = take st nvars @ prjn_entries pv"
proof -
  let ?r = "fill_prjnvars st pv nvars"
  from fold_fill_step [of nvars st pv 0 "length pv"] assms
  have a: "take st ?r = take st nvars" and b: "length ?r = length nvars"
    and c: "take (2 * length pv) (drop st ?r) = prjn_entries pv"
    by (simp_all add: fill_prjnvars_def)
  have "drop st ?r = prjn_entries pv"
    using c b assms by simp
  then have "take st ?r @ drop st ?r = take st nvars @ prjn_entries pv"
    using a by simp
  then show ?thesis by simp
qed

lemma length_prjn_entries: "length (prjn_entries pv) = 2 * length pv"
  by (induction pv) (simp_all add: prjn_entries_def)

lemma copy_slice_replicate:
  "length src \<le> n \<Longrightarrow> copy_slice (replicate n x) src = src @ replicate (n - length src) x"
  by (simp add: copy_slice_def)

text \<open>
  Claim C10. For a network with at least one layer, \<open>NetVarsList net true\<close> is the
  unit variable names of layer 0, then one empty slot when their number is odd, then for
  each synapse variable of the first projection its \<open>r.\<close> entry immediately followed by
  its \<open>s.\<close> entry; its length is even.
\<close>

theorem NetVarsList_even_layout:
  assumes "ls \<noteq> []"
  shows "NetVarsList (Some ls) True =
           UnitVarNames (ls ! 0)
           @ (if length (UnitVarNames (ls ! 0)) mod 2 \<noteq> 0 then [''''] else [])
           @ prjn_entries (first_prjnvars ls)
         \<and> even (length (NetVarsList (Some ls) True))"
proof -
  define un where "un = UnitVarNames (ls ! 0)"
  define pv where "pv = first_prjnvars ls"
  define ulen where "ulen = (if length un mod 2 \<noteq> 0 then length un + 1 else length un)"
  have eq: "NetVarsList (Some ls) True =
      fill_prjnvars ulen pv (copy_slice (replicate (ulen + 2 * length pv) []) un)"
    using assms by (simp add: NetVarsList_def NetFirstLayPrjn_def Let_def first_prjnvars_def
        un_def pv_def ulen_def)
  have le: "length un \<le> ulen + 2 * length pv" by (simp add: ulen_def)
  have cp: "copy_slice (replicate (ulen + 2 * length pv) []) un
      = un @ replicate (ulen + 2 * length pv - length un) []"
    by (rule copy_slice_replicate [OF le])
  have f: "fill_prjnvars ulen pv (un @ replicate (ulen + 2 * length pv - length un) [])
      = take ulen (un @ replicate (ulen + 2 * length pv - length un) []) @ prjn_entries pv"
    by (rule fill_prjnvars_eq) (use le in simp)
  have tk: "take ulen (un @ replicate (ulen + 2 * length pv - length un) [])
      = un @ (if length un mod 2 \<noteq> 0 then [''''] else [])"
    by (simp add: ulen_def)
  have r: "NetVarsList (Some ls) True =
      un @ (if length un mod 2 \<noteq> 0 then [''''] else []) @ prjn_entries pv"
    by (simp only: eq cp f tk append_assoc)
  have ev: "even (length (un @ (if length un mod 2 \<noteq> 0 then [''''] else []) @ prjn_entries pv))"
    by (simp add: length_prjn_entries) presburger
  show ?thesis
    unfolding un_def [symmetric] pv_def [symmetric]
    using r ev by (simp only:) 
qed

theorem NetVarsList_even_layout_witness:
  "NetVarsList
     (Some [\<lparr>UnitVarNames = [''Act'', ''Ge'', ''Gi''], RecvPrjns = [], SendPrjns = []\<rparr>,
            \<lparr>UnitVarNames = [''Act''], RecvPrjns = [\<lparr>SynVarNames = [''Wt'', ''DWt'']\<rparr>],
             SendPrjns = []\<rparr>]) True
   = [''Act'', ''Ge'', ''Gi'', '''', ''r.Wt'', ''s.Wt'', ''r.DWt'', ''s.DWt'']"
  using NetVarsList_even_layout
    [of "[\<lparr>UnitVarNames = [''Act'', ''Ge'', ''Gi''], RecvPrjns = [], SendPrjns = []\<rparr>,
          \<lparr>UnitVarNames = [''Act''], RecvPrjns = [\<lparr>SynVarNames = [''Wt'', ''DWt'']\<rparr>],
           SendPrjns = []\<rparr>]"]
  by (simp add: first_prjnvars_def prjn_entries_def NRecvPrjns_def NSendPrjns_def)


section \<open>The methods write the reference text\<close>

lemma emits_put: "emits (put p) p"
  by (simp add: emits_def put_def Write_drop_def Write_def)

lemma emits_comp: "emits f t \<Longrightarrow> emits g u \<Longrightarrow> emits (\<lambda>s. g (f s)) (t @ u)"
  by (simp add: emits_def)

lemma emits_fold:
  "(\<And>x. x \<in> set xs \<Longrightarrow> emits (f x) (t x)) \<Longrightarrow> emits (fold f xs) (concat (map t xs))"
proof (induction xs)
  case Nil
  show ?case by (simp add: emits_def)
next
  case (Cons x xs)
  have a: "emits (f x) (t x)" using Cons.prems by simp
  have b: "emits (fold f xs) (concat (map t xs))" using Cons by simp
  from emits_comp [OF a b] show ?case by (simp add: comp_def)
qed

lemma sort_range:
  assumes "range_ok rng"
  shows "sort (rng sd ks) = sorted_list_of_fset ks"
proof -
  from assms have d: "distinct (rng sd ks)" and e: "fset_of_list (rng sd ks) = ks"
    by (simp_all add: range_ok_def)
  have "fset ks = set (rng sd ks)"
    using e by (metis fset_of_list.rep_eq)
  then have "sorted_list_of_fset ks = sort (remdups (rng sd ks))"
    by (simp add: sorted_list_of_fset.rep_eq sorted_list_of_set_sort_remdups)
  then show ?thesis using d by (simp add: distinct_remdups_id)
qed

lemma Params_WriteGoCode_emits:
  assumes "range_ok rng"
  shows "emits (Params_WriteGoCode q rng pr depth) (Params_text q pr depth)"
proof -
  let ?ks = "sorted_list_of_fset (fmdom pr)"
  let ?body = "\<lambda>pt s. put (q pt @ '': '' @ q (index_Params pr pt) @ '','' @ nl) (put (TabBytes (depth + 1)) s)"
  have eq: "Params_WriteGoCode q rng pr depth =
      (\<lambda>s. put ''}'' (put (TabBytes depth) (fold ?body ?ks
         ((put (''params.Params{'' @ nl) s)\<lparr>seed := Suc (seed (put (''params.Params{'' @ nl) s))\<rparr>))))"
    by (rule ext) (simp add: Params_WriteGoCode_def Let_def range_keys_def sort_range [OF assms])
  have body: "\<And>pt. emits (?body pt) (Params_line q pr depth pt)"
    unfolding Params_line_def by (rule emits_comp [OF emits_put emits_put])
  have f: "emits (fold ?body ?ks) (concat (map (Params_line q pr depth) ?ks))"
    by (rule emits_fold) (rule body)
  have h: "emits (\<lambda>s. (put (''params.Params{'' @ nl) s)\<lparr>seed := Suc (seed (put (''params.Params{'' @ nl) s))\<rparr>)
              (''params.Params{'' @ nl)"
    using emits_put [of "''params.Params{'' @ nl"] by (simp add: emits_def)
  have "emits (\<lambda>s. put ''}'' (put (TabBytes depth) (fold ?body ?ks
         ((put (''params.Params{'' @ nl) s)\<lparr>seed := Suc (seed (put (''params.Params{'' @ nl) s))\<rparr>))))
        ((((''params.Params{'' @ nl) @ concat (map (Params_line q pr depth) ?ks)) @ TabBytes depth) @ ''}'')"
    by (rule emits_comp [OF emits_comp [OF emits_comp [OF h f] emits_put] emits_put])
  then show ?thesis
    unfolding eq Params_text_def by (simp only: append_assoc)
qed

lemma Sel_WriteGoCode_emits:
  assumes "range_ok rng"
  shows "emits (Sel_WriteGoCode q rng pr depth) (Sel_text q pr depth)"
proof -
  let ?h = "''Sel: '' @ q (Sel pr) @ '', Desc: '' @ q (Sel.Desc pr) @ '','' @ nl"
  have eq: "Sel_WriteGoCode q rng pr depth =
      (\<lambda>s. Params_WriteGoCode q rng (Params pr) (depth + 1)
              (put ''Params: '' (put (TabBytes (depth + 1)) (put ?h s))))"
    by (rule ext) (simp add: Sel_WriteGoCode_def Let_def)
  have "emits (\<lambda>s. Params_WriteGoCode q rng (Params pr) (depth + 1)
              (put ''Params: '' (put (TabBytes (depth + 1)) (put ?h s))))
        (((?h @ TabBytes (depth + 1)) @ ''Params: '') @ Params_text q (Params pr) (depth + 1))"
    by (rule emits_comp [OF emits_comp [OF emits_comp [OF emits_put emits_put] emits_put]
          Params_WriteGoCode_emits [OF assms]])
  then show ?thesis
    unfolding eq Sel_text_def by (simp only: append_assoc)
qed

lemma Sheet_WriteGoCode_emits:
  assumes "range_ok rng"
  shows "emits (Sheet_WriteGoCode q rng pr depth) (Sheet_text q pr depth)"
proof -
  let ?body = "\<lambda>pv s. put (''},'' @ nl) (Sel_WriteGoCode q rng pv (depth + 1)
                 (put ''{'' (put (TabBytes (depth + 1)) s)))"
  let ?t = "\<lambda>pv. TabBytes (depth + 1) @ ''{'' @ Sel_text q pv (depth + 1) @ ''},'' @ nl"
  have eq: "Sheet_WriteGoCode q rng pr depth =
      (\<lambda>s. put (''},'' @ nl) (put (TabBytes depth) (fold ?body pr (put (''params.Sheet{'' @ nl) s))))"
    by (rule ext) (simp add: Sheet_WriteGoCode_def Let_def)
  have body: "\<And>pv. emits (?body pv) (?t pv)"
  proof -
    fix pv
    have "emits (?body pv) (((TabBytes (depth + 1) @ ''{'') @ Sel_text q pv (depth + 1)) @ ''},'' @ nl)"
      by (rule emits_comp [OF emits_comp [OF emits_comp [OF emits_put emits_put]
            Sel_WriteGoCode_emits [OF assms]] emits_put])
    then show "emits (?body pv) (?t pv)" by (simp only: append_assoc)
  qed
  have f: "emits (fold ?body pr) (concat (map ?t pr))"
    by (rule emits_fold) (rule body)
  have "emits (\<lambda>s. put (''},'' @ nl) (put (TabBytes depth) (fold ?body pr (put (''params.Sheet{'' @ nl) s))))
        ((((''params.Sheet{'' @ nl) @ concat (map ?t pr)) @ TabBytes depth) @ ''},'' @ nl)"
    by (rule emits_comp [OF emits_comp [OF emits_comp [OF emits_put f] emits_put] emits_put])
  then show ?thesis
    unfolding eq Sheet_text_def by (simp only: append_assoc)
qed

lemma Sheets_WriteGoCode_emits:
  assumes "range_ok rng"
  shows "emits (Sheets_WriteGoCode q rng pr depth) (Sheets_text q pr depth)"
proof -
  let ?ks = "sorted_list_of_fset (fmdom pr)"
  let ?body = "\<lambda>nm s. Sheet_WriteGoCode q rng (index_Sheets pr nm) (depth + 1)
                 (put (q nm @ '': &'') (put (TabBytes (depth + 1)) s))"
  have eq: "Sheets_WriteGoCode q rng pr depth =
      (\<lambda>s. put ''}'' (put (TabBytes depth) (fold ?body ?ks
         ((put (''params.Sheets{'' @ nl) s)\<lparr>seed := Suc (seed (put (''params.Sheets{'' @ nl) s))\<rparr>))))"
    by (rule ext) (simp add: Sheets_WriteGoCode_def Let_def range_keys_def sort_range [OF assms])
  have body: "\<And>nm. emits (?body nm) (Sheets_line q pr depth nm)"
  proof -
    fix nm
    have "emits (?body nm)
        ((TabBytes (depth + 1) @ q nm @ '': &'') @ Sheet_text q (index_Sheets pr nm) (depth + 1))"
      by (rule emits_comp [OF emits_comp [OF emits_put emits_put] Sheet_WriteGoCode_emits [OF assms]])
    then show "emits (?body nm) (Sheets_line q pr depth nm)"
      unfolding Sheets_line_def by (simp only: append_assoc)
  qed
  have f: "emits (fold ?body ?ks) (concat (map (Sheets_line q pr depth) ?ks))"
    by (rule emits_fold) (rule body)
  have h: "emits (\<lambda>s. (put (''params.Sheets{'' @ nl) s)\<lparr>seed := Suc (seed (put (''params.Sheets{'' @ nl) s))\<rparr>)
              (''params.Sheets{'' @ nl)"
    using emits_put [of "''params.Sheets{'' @ nl"] by (simp add: emits_def)
  have "emits (\<lambda>s. put ''}'' (put (TabBytes depth) (fold ?body ?ks
         ((put (''params.Sheets{'' @ nl) s)\<lparr>seed := Suc (seed (put (''params.Sheets{'' @ nl) s))\<rparr>))))
        ((((''params.Sheets{'' @ nl) @ concat (map (Sheets_line q pr depth) ?ks)) @ TabBytes depth) @ ''}'')"
    by (rule emits_comp [OF emits_comp [OF emits_comp [OF h f] emits_put] emits_put])
  then show ?thesis
    unfolding eq Sheets_text_def by (simp only: append_assoc)
qed

lemma Set_WriteGoCode_emits:
  assumes "range_ok rng"
  shows "emits (Set_WriteGoCode q rng pr depth) (Set_text q pr depth)"
proof -
  let ?h = "''Name: '' @ q (Set.Name pr) @ '', Desc: '' @ q (Set.Desc pr) @ '', Sheets: ''"
  have eq: "Set_WriteGoCode q rng pr depth =
      (\<lambda>s. Sheets_WriteGoCode q rng (Sheets pr) depth (put ?h s))"
    by (rule ext) (simp add: Set_WriteGoCode_def Let_def)
  have "emits (\<lambda>s. Sheets_WriteGoCode q rng (Sheets pr) depth (put ?h s))
        (?h @ Sheets_text q (Sheets pr) depth)"
    by (rule emits_comp [OF emits_put Sheets_WriteGoCode_emits [OF assms]])
  then show ?thesis
    unfolding eq Set_text_def by (simp only: append_assoc)
qed

lemma Sets_WriteGoCode_emits:
  assumes "range_ok rng"
  shows "emits (Sets_WriteGoCode q rng pr depth) (Sets_text q pr depth)"
proof -
  let ?body = "\<lambda>st s. put (''},'' @ nl) (Set_WriteGoCode q rng st (depth + 1)
                 (put ''{'' (put (TabBytes (depth + 1)) s)))"
  let ?t = "\<lambda>st. TabBytes (depth + 1) @ ''{'' @ Set_text q st (depth + 1) @ ''},'' @ nl"
  have eq: "Sets_WriteGoCode q rng pr depth =
      (\<lambda>s. put (''}'' @ nl) (put (TabBytes depth) (fold ?body pr (put (''params.Sets{'' @ nl) s))))"
    by (rule ext) (simp add: Sets_WriteGoCode_def Let_def)
  have body: "\<And>st. emits (?body st) (?t st)"
  proof -
    fix st
    have "emits (?body st) (((TabBytes (depth + 1) @ ''{'') @ Set_text q st (depth + 1)) @ ''},'' @ nl)"
      by (rule emits_comp [OF emits_comp [OF emits_comp [OF emits_put emits_put]
            Set_WriteGoCode_emits [OF assms]] emits_put])
    then show "emits (?body st) (?t st)" by (simp only: append_assoc)
  qed
  have f: "emits (fold ?body pr) (concat (map ?t pr))"
    by (rule emits_fold) (rule body)
  have "emits (\<lambda>s. put (''}'' @ nl) (put (TabBytes depth) (fold ?body pr (put (''params.Sets{'' @ nl) s))))
        ((((''params.Sets{'' @ nl) @ concat (map ?t pr)) @ TabBytes depth) @ ''}'' @ nl)"
    by (rule emits_comp [OF emits_comp [OF emits_comp [OF emits_put f] emits_put] emits_put])
  then show ?thesis
    unfolding eq Sets_text_def by (simp only: append_assoc)
qed


section \<open>Keys are written in ascending order\<close>

lemma range_ok_descending: "range_ok descending"
proof -
  have "fset_of_list (rev (sorted_list_of_fset ks)) = ks" for ks :: "string fset"
    by (rule fset_eqI) (simp add: fset_of_list.rep_eq sorted_list_of_fset.rep_eq)
  then show ?thesis
    by (simp add: range_ok_def descending_def sorted_list_of_fset.rep_eq)
qed

lemma keys_ascending:
  "sorted_wrt (<) (sorted_list_of_fset (fmdom m)) \<and> set (sorted_list_of_fset (fmdom m)) = fmdom' m"
proof -
  have "fset (fmdom m) = fmdom' m"
    by (simp add: fmdom'_alt_def)
  then show ?thesis
    by (simp add: sorted_list_of_fset.rep_eq strict_sorted_iff)
qed

text \<open>
  Claim C4. Whatever order the range loops draw, \<open>Params.WriteGoCode\<close> writes one line
  per path and \<open>Sheets.WriteGoCode\<close> one entry per sheet name, and the paths and the
  names come in strictly ascending order of their strings, each key of the map once.
\<close>

theorem WriteGoCode_keys_ascending:
  assumes "range_ok rng" and "room (out s) = None" and "room (out s') = None"
  shows
    "written (out (Params_WriteGoCode q rng pr depth s)) =
       written (out s) @ ''params.Params{'' @ nl
       @ concat (map (\<lambda>pt. TabBytes (depth + 1) @ q pt @ '': '' @ q (index_Params pr pt) @ '','' @ nl)
                   (sorted_list_of_fset (fmdom pr)))
       @ TabBytes depth @ ''}''
     \<and> sorted_wrt (<) (sorted_list_of_fset (fmdom pr))
     \<and> set (sorted_list_of_fset (fmdom pr)) = fmdom' pr
     \<and> written (out (Sheets_WriteGoCode q rng shs depth s')) =
       written (out s') @ ''params.Sheets{'' @ nl
       @ concat (map (\<lambda>nm. TabBytes (depth + 1) @ q nm @ '': &''
                        @ Sheet_text q (index_Sheets shs nm) (depth + 1))
                   (sorted_list_of_fset (fmdom shs)))
       @ TabBytes depth @ ''}''
     \<and> sorted_wrt (<) (sorted_list_of_fset (fmdom shs))
     \<and> set (sorted_list_of_fset (fmdom shs)) = fmdom' shs"
proof -
  have a: "written (out (Params_WriteGoCode q rng pr depth s)) = written (out s) @ Params_text q pr depth"
    using Params_WriteGoCode_emits [OF assms(1), of q pr depth] assms(2) by (simp add: emits_def)
  have b: "written (out (Sheets_WriteGoCode q rng shs depth s')) = written (out s') @ Sheets_text q shs depth"
    using Sheets_WriteGoCode_emits [OF assms(1), of q shs depth] assms(3) by (simp add: emits_def)
  have c: "Params_text q pr depth = ''params.Params{'' @ nl
       @ concat (map (\<lambda>pt. TabBytes (depth + 1) @ q pt @ '': '' @ q (index_Params pr pt) @ '','' @ nl)
                   (sorted_list_of_fset (fmdom pr)))
       @ TabBytes depth @ ''}''"
    unfolding Params_text_def Params_line_def by (rule refl)
  have d: "Sheets_text q shs depth = ''params.Sheets{'' @ nl
       @ concat (map (\<lambda>nm. TabBytes (depth + 1) @ q nm @ '': &''
                        @ Sheet_text q (index_Sheets shs nm) (depth + 1))
                   (sorted_list_of_fset (fmdom shs)))
       @ TabBytes depth @ ''}''"
    unfolding Sheets_text_def Sheets_line_def by (rule refl)
  show ?thesis
    unfolding a b c d
    using keys_ascending [of pr] keys_ascending [of shs] by blast
qed

lemma sorted_list_of_fset_eqI:
  "sorted_wrt (<) xs \<Longrightarrow> fset ks = set xs \<Longrightarrow> sorted_list_of_fset ks = xs"
  by (simp add: sorted_list_of_fset.rep_eq strict_sorted_iff
      sorted_list_of_set.idem_if_sorted_distinct)

lemma example_keys:
  "sorted_list_of_fset (fmdom example_Params) = [''Gain'', ''Lrate'']"
  "sorted_list_of_fset (fmdom example_Sheets) = [''Env'', ''Network'']"
  by (rule sorted_list_of_fset_eqI; auto simp: example_Params_def example_Sheets_def)+

lemma example_index:
  "index_Params example_Params ''Gain'' = ''1.5''"
  "index_Params example_Params ''Lrate'' = ''0.05''"
  "index_Sheets example_Sheets ''Env'' = []"
  "index_Sheets example_Sheets ''Network'' = [example_Sel]"
  by (simp_all add: index_Params_def index_Sheets_def example_Params_def example_Sheets_def)

theorem WriteGoCode_keys_ascending_witness:
  "range_ok descending
   \<and> room (out \<lparr>out = Buffer, seed = 0\<rparr>) = None
   \<and> written (out (Params_WriteGoCode quoted descending example_Params 3
        \<lparr>out = Buffer, seed = 0\<rparr>))
     = ''params.Params{'' @ nl
       @ TabBytes 4 @ quoted ''Gain'' @ '': '' @ quoted ''1.5'' @ '','' @ nl
       @ TabBytes 4 @ quoted ''Lrate'' @ '': '' @ quoted ''0.05'' @ '','' @ nl
       @ TabBytes 3 @ ''}''
   \<and> written (out (Sheets_WriteGoCode quoted descending example_Sheets 3
        \<lparr>out = Buffer, seed = 0\<rparr>))
     = ''params.Sheets{'' @ nl
       @ TabBytes 4 @ quoted ''Env'' @ '': &'' @ Sheet_text quoted [] 4
       @ TabBytes 4 @ quoted ''Network'' @ '': &'' @ Sheet_text quoted [example_Sel] 4
       @ TabBytes 3 @ ''}''"
proof -
  have r: "room (out \<lparr>out = Buffer, seed = 0\<rparr>) = None"
    by (simp add: Buffer_def)
  show ?thesis
    using WriteGoCode_keys_ascending [OF range_ok_descending r r, of quoted example_Params 3
        example_Sheets]
    by (simp add: range_ok_descending example_keys example_index Buffer_def)
qed


section \<open>The Go code does not depend on the order of the range loops\<close>

text \<open>
  Claim C5. Two runs of the serializer on the same \<open>Sets\<close> value give the same bytes,
  whatever orders the range loops draw in either run and whatever the random state of
  the runtime is: \<open>StringGoCode\<close> returns the same text, and the bytes that
  \<open>SaveJSON\<close> marshals are the text of a document that only the value determines.
\<close>

lemma Sets_StringGoCode_text:
  assumes "range_ok rng"
  shows "Sets_StringGoCode q rng sd pr = Sets_text q pr 0"
  using Sets_WriteGoCode_emits [OF assms, of q pr 0]
  by (simp add: emits_def Sets_StringGoCode_def Buffer_def)

theorem Sets_serialization_deterministic:
  assumes "range_ok rng1" and "range_ok rng2"
  shows "Sets_StringGoCode q rng1 sd1 pr = Sets_StringGoCode q rng2 sd2 pr
         \<and> MarshalIndent enc (Sets_json pr) = Inr (enc (Sets_json pr))"
  using assms by (simp add: Sets_StringGoCode_text MarshalIndent_def)

lemma range_ok_ascending: "range_ok ascending"
proof -
  have "fset_of_list (sorted_list_of_fset ks) = ks" for ks :: "string fset"
    by (rule fset_eqI) (simp add: fset_of_list.rep_eq sorted_list_of_fset.rep_eq)
  then show ?thesis
    by (simp add: range_ok_def ascending_def sorted_list_of_fset.rep_eq)
qed

theorem Sets_serialization_deterministic_witness:
  "range_ok descending \<and> range_ok ascending
   \<and> Sets_StringGoCode quoted descending 0 example_Sets
     = Sets_StringGoCode quoted ascending 7 example_Sets
   \<and> Sets_StringGoCode quoted descending 0 example_Sets
     = ''params.Sets{'' @ nl
       @ TabBytes 1 @ ''{Name: '' @ quoted ''Base'' @ '', Desc: '' @ quoted ''baseline''
       @ '', Sheets: '' @ Sheets_text quoted example_Sheets 1 @ ''},'' @ nl
       @ ''}'' @ nl"
proof -
  have e: "Sets_StringGoCode quoted descending 0 example_Sets
     = ''params.Sets{'' @ nl
       @ TabBytes 1 @ ''{Name: '' @ quoted ''Base'' @ '', Desc: '' @ quoted ''baseline''
       @ '', Sheets: '' @ Sheets_text quoted example_Sheets 1 @ ''},'' @ nl
       @ ''}'' @ nl"
    by (simp add: Sets_StringGoCode_text [OF range_ok_descending] Sets_text_def Set_text_def
        example_Sets_def example_Set_def TabBytes_def)
  show ?thesis
    using Sets_serialization_deterministic [OF range_ok_descending range_ok_ascending,
        of quoted 0 example_Sets 7] e
    by (simp add: range_ok_descending range_ok_ascending)
qed


section \<open>Opening a file: what is left of the old value\<close>

lemma fold_evals:
  "equal_fold ''Sel'' ''Sel''" "\<not> equal_fold ''Sel'' ''Desc''" "\<not> equal_fold ''Sel'' ''Params''"
  "equal_fold ''Desc'' ''Desc''" "\<not> equal_fold ''Desc'' ''Params''" "equal_fold ''Params'' ''Params''"
  "equal_fold ''Name'' ''Name''" "\<not> equal_fold ''Name'' ''Desc''" "\<not> equal_fold ''Name'' ''Sheets''"
  "\<not> equal_fold ''Desc'' ''Sheets''" "equal_fold ''Sheets'' ''Sheets''"
  by (simp_all add: equal_fold_def lower_def)

lemma example_texts_differ:
  "sel_file_text \<noteq> set_file_text" "sel_file_text \<noteq> bad_file_text"
  "set_file_text \<noteq> bad_file_text" "set_file_text \<noteq> sel_file_text"
  "bad_file_text \<noteq> sel_file_text" "bad_file_text \<noteq> set_file_text"
  by (simp_all add: sel_file_text_def set_file_text_def bad_file_text_def)


text \<open>
  Claim C1. The claim asks every \<open>OpenJSON\<close> to replace the old value. \<open>Sel.OpenJSON\<close>
  and \<open>Set.OpenJSON\<close> lack the reset that the other four methods start with: loading a
  selector whose file sets \<open>Lrate\<close> into a selector that holds \<open>Gain\<close> leaves both
  paths, and loading a set whose file has the sheet \<open>Network\<close> into a set that holds the
  sheet \<open>Env\<close> leaves both sheets.
\<close>

theorem Sel_Set_OpenJSON_merge:
  "Sel_OpenJSON example_decoder ''sel.params'' old_Sel files_FS =
     (\<lparr>Sel = ''Layer'', Desc = '''',
       Params = fmap_of_list [(''Lrate'', ''0.05''), (''Gain'', ''1.5'')]\<rparr>, None)
   \<and> Set_OpenJSON example_decoder ''set.params'' old_Set files_FS =
     (\<lparr>Set.Name = ''Base'', Desc = '''',
       Sheets = fmap_of_list [(''Network'', []), (''Env'', [])]\<rparr>, None)"
proof
  show "Sel_OpenJSON example_decoder ''sel.params'' old_Sel files_FS =
     (\<lparr>Sel = ''Layer'', Desc = '''',
       Params = fmap_of_list [(''Lrate'', ''0.05''), (''Gain'', ''1.5'')]\<rparr>, None)"
    by (simp add: Sel_OpenJSON_def ReadFile_def files_FS_def Unmarshal_def example_decoder_def
        table_decoder_def sel_file_json_def old_Sel_def decode_Sel_member_def fold_evals
        first_error_def)
  show "Set_OpenJSON example_decoder ''set.params'' old_Set files_FS =
     (\<lparr>Set.Name = ''Base'', Desc = '''',
       Sheets = fmap_of_list [(''Network'', []), (''Env'', [])]\<rparr>, None)"
    by (simp add: Set_OpenJSON_def ReadFile_def files_FS_def Unmarshal_def example_decoder_def
        table_decoder_def set_file_json_def old_Set_def decode_Set_member_def fold_evals
        first_error_def example_texts_differ)
qed


section \<open>Opening a file that cannot be loaded\<close>





section \<open>Saving and opening again\<close>

















section \<open>Errors of the save methods\<close>

lemma WriteFile_error_iff:
  "(fst (WriteFile filename b fs) \<noteq> None) = (io_failed fs < io_failed (snd (WriteFile filename b fs)))"
  by (simp add: WriteFile_def os_Create_def Write_def os_Close_def)

lemma SaveGoCode_with_error_iff:
  "(fst (SaveGoCode_with write filename sd fs) \<noteq> None) = isl (fst (os_Create filename fs))"
  by (simp add: SaveGoCode_with_def os_Create_def Let_def)

text \<open>
  Claim C2 as stated fails for \<open>SaveGoCode\<close>: on a device with no room left the file
  is created, every write into it fails, and the method returns nil.
\<close>

theorem SaveGoCode_swallows_write_errors:
  "fst (Params_SaveGoCode quoted descending ''saved.go'' example_Params 0 full_FS) = None
   \<and> io_failed full_FS
       < io_failed (snd (Params_SaveGoCode quoted descending ''saved.go'' example_Params 0 full_FS))"
proof -
  have last: "0 < failed (out (put ''}'' s))" if "room (out s) = Some 0" for s
    using that by (simp add: put_def Write_drop_def Write_def)
  have room0: "room (out (put p s)) = Some 0" if "room (out s) = Some 0" for p s
    using that by (simp add: put_def Write_drop_def Write_def)
  have fold_room: "room (out (fold f xs s)) = Some 0"
    if "room (out s) = Some 0" and "\<And>x s. room (out s) = Some 0 \<Longrightarrow> room (out (f x s)) = Some 0"
    for f :: "string \<Rightarrow> world \<Rightarrow> world" and xs s
    using that by (induction xs arbitrary: s) simp_all
  let ?s0 = "\<lparr>out = \<lparr>written = [], room = Some 0, failed = 0\<rparr>, seed = 0\<rparr>"
  have p0: "room (out (WriteGoPrelude ''SavedParams'' ?s0)) = Some 0"
    by (simp add: WriteGoPrelude_def Let_def room0)
  have "0 < failed (out (Params_WriteGoCode quoted descending example_Params 0
            (WriteGoPrelude ''SavedParams'' ?s0)))"
    unfolding Params_WriteGoCode_def Let_def range_keys_def split_def fst_conv snd_conv
    by (rule last) (intro room0 fold_room, simp add: room0 p0, simp add: room0)
  then show ?thesis
    by (simp add: Params_SaveGoCode_def SaveGoCode_with_def os_Create_def os_Close_def
        full_FS_def Let_def)
qed

text \<open>
  Claim C2, amended. Each \<open>SaveJSON\<close> returns an error exactly when an operation on the
  file failed. Each \<open>SaveGoCode\<close> returns an error exactly when the file cannot be
  created: the results of the writes into the created file are not looked at.
\<close>

theorem Save_errors:
  "(fst (Params_SaveJSON enc filename pr fs) \<noteq> None)
     = (io_failed fs < io_failed (snd (Params_SaveJSON enc filename pr fs)))
   \<and> (fst (Sel_SaveJSON enc filename sl fs) \<noteq> None)
     = (io_failed fs < io_failed (snd (Sel_SaveJSON enc filename sl fs)))
   \<and> (fst (Sheet_SaveJSON enc filename sh fs) \<noteq> None)
     = (io_failed fs < io_failed (snd (Sheet_SaveJSON enc filename sh fs)))
   \<and> (fst (Sheets_SaveJSON enc filename shs fs) \<noteq> None)
     = (io_failed fs < io_failed (snd (Sheets_SaveJSON enc filename shs fs)))
   \<and> (fst (Set_SaveJSON enc filename st fs) \<noteq> None)
     = (io_failed fs < io_failed (snd (Set_SaveJSON enc filename st fs)))
   \<and> (fst (Sets_SaveJSON enc filename sts fs) \<noteq> None)
     = (io_failed fs < io_failed (snd (Sets_SaveJSON enc filename sts fs)))
   \<and> (fst (Params_SaveGoCode q rng filename pr sd fs) \<noteq> None) = isl (fst (os_Create filename fs))
   \<and> (fst (Sel_SaveGoCode q rng filename sl sd fs) \<noteq> None) = isl (fst (os_Create filename fs))
   \<and> (fst (Sheet_SaveGoCode q rng filename sh sd fs) \<noteq> None) = isl (fst (os_Create filename fs))
   \<and> (fst (Sheets_SaveGoCode q rng filename shs sd fs) \<noteq> None) = isl (fst (os_Create filename fs))
   \<and> (fst (Set_SaveGoCode q rng filename st sd fs) \<noteq> None) = isl (fst (os_Create filename fs))
   \<and> (fst (Sets_SaveGoCode q rng filename sts sd fs) \<noteq> None) = isl (fst (os_Create filename fs))"
  unfolding Params_SaveJSON_def Sel_SaveJSON_def Sheet_SaveJSON_def Sheets_SaveJSON_def
    Set_SaveJSON_def Sets_SaveJSON_def Params_SaveGoCode_def Sel_SaveGoCode_def
    Sheet_SaveGoCode_def Sheets_SaveGoCode_def Set_SaveGoCode_def Sets_SaveGoCode_def
    MarshalIndent_def sum.case
  by (intro conjI WriteFile_error_iff SaveGoCode_with_error_iff)


section \<open>A failed path does not stop the pass\<close>

lemma assign_path_effect:
  "failures (assign_path rm m p oc) = failures oc @ (if settable (target oc) m p then [] else [p])"
  "changed (assign_path rm m p oc) = (changed oc \<or> settable (target oc) m p)"
  "fmlookup (Fields (target (assign_path rm m p oc))) x =
     (if x = p \<and> settable (target oc) m p then assigned (target oc) m p
      else fmlookup (Fields (target oc)) x)"
  by (auto simp: assign_path_def settable_def assigned_def split: option.splits)

lemma assign_path_other:
  "q \<noteq> p \<Longrightarrow> assigned (target (assign_path rm m p oc)) m q = assigned (target oc) m q"
  by (simp add: assigned_def assign_path_effect(3))

lemma fold_assign_path:
  assumes "distinct ps"
  shows "failures (fold (assign_path rm m) ps oc)
           = failures oc @ filter (\<lambda>pt. \<not> settable (target oc) m pt) ps
       \<and> changed (fold (assign_path rm m) ps oc)
           = (changed oc \<or> filter (settable (target oc) m) ps \<noteq> [])
       \<and> (\<forall>x. fmlookup (Fields (target (fold (assign_path rm m) ps oc))) x
           = (if x \<in> set (filter (settable (target oc) m) ps) then assigned (target oc) m x
              else fmlookup (Fields (target oc)) x))"
  using assms
proof (induction ps arbitrary: oc)
  case Nil
  show ?case by simp
next
  case (Cons p ps)
  let ?oc1 = "assign_path rm m p oc"
  have d: "distinct ps" and np: "p \<notin> set ps" using Cons.prems by simp_all
  have same: "settable (target ?oc1) m q = settable (target oc) m q" if "q \<in> set ps" for q
  proof -
    have "q \<noteq> p" using that np by auto
    then show ?thesis by (simp add: settable_def assign_path_other)
  qed
  have f: "filter (settable (target ?oc1) m) ps = filter (settable (target oc) m) ps"
    by (rule filter_cong) (simp_all add: same)
  have g: "filter (\<lambda>pt. \<not> settable (target ?oc1) m pt) ps
         = filter (\<lambda>pt. \<not> settable (target oc) m pt) ps"
    by (rule filter_cong) (simp_all add: same)
  have a: "assigned (target ?oc1) m x = assigned (target oc) m x" if "x \<in> set ps" for x
  proof -
    have "x \<noteq> p" using that np by auto
    then show ?thesis by (simp add: assign_path_other)
  qed
  note ih = Cons.IH [OF d, of ?oc1, unfolded f g]
  show ?case
  proof (intro conjI allI)
    show "failures (fold (assign_path rm m) (p # ps) oc)
           = failures oc @ filter (\<lambda>pt. \<not> settable (target oc) m pt) (p # ps)"
      using ih by (simp add: assign_path_effect(1))
    show "changed (fold (assign_path rm m) (p # ps) oc)
           = (changed oc \<or> filter (settable (target oc) m) (p # ps) \<noteq> [])"
      using ih by (auto simp: assign_path_effect(2))
    fix x
    show "fmlookup (Fields (target (fold (assign_path rm m) (p # ps) oc))) x
           = (if x \<in> set (filter (settable (target oc) m) (p # ps)) then assigned (target oc) m x
              else fmlookup (Fields (target oc)) x)"
      using ih np a [of x] by (auto simp: assign_path_effect(3))
  qed
qed

lemma distinct_sorted_list_of_fset: "distinct (sorted_list_of_fset ks)"
  by (simp add: sorted_list_of_fset.rep_eq)

text \<open>
  Claim C7. In one \<open>Apply\<close> of a sheet to a target, every path of the resolved map
  that resolves and converts is assigned, whatever other paths fail; the error lists
  exactly the paths that failed, and there is none when no path failed; and
  \<open>changed\<close> is true exactly when at least one path was set.
\<close>

theorem Apply_partial_failure:
  "(let m = resolve sheet tg;
        ps = sorted_list_of_fset (fmdom m);
        good = filter (settable tg m) ps;
        bad = filter (\<lambda>pt. \<not> settable tg m pt) ps;
        (chg, err, tg', rep) = Apply sheet tg reportMode
    in err = (if bad = [] then None else Some bad)
       \<and> chg = (good \<noteq> [])
       \<and> (\<forall>pt. fmlookup (Fields tg') pt
             = (if pt \<in> set good then assigned tg m pt else fmlookup (Fields tg) pt)))"
proof -
  let ?m = "resolve sheet tg"
  let ?ps = "sorted_list_of_fset (fmdom ?m)"
  let ?oc0 = "\<lparr>changed = False, failures = [], target = tg, report = []\<rparr>"
  note r = fold_assign_path [OF distinct_sorted_list_of_fset, of reportMode ?m "fmdom ?m" ?oc0]
  show ?thesis
    using r by (simp add: Apply_def Let_def)
qed

lemma example_resolve:
  "resolve example_Sheet example_Target
     = fmupd ''Gain'' (1, ''2'') (fmupd ''Lrate'' (0, ''0.05'') fmempty)"
proof -
  have k: "sorted_list_of_fset {|x|} = [x]" for x :: string
    by (simp add: sorted_list_of_fset.rep_eq)
  show ?thesis
    by (simp add: resolve_def example_Sheet_def example_Target_def Sel_matches_def merge_Sel_def
        merge_path_def k index_Params_def)
qed

lemma sorted_list_of_fset_pair:
  fixes a b :: string
  assumes "a < b"
  shows "sorted_list_of_fset {|a, b|} = [a, b]" and "sorted_list_of_fset {|b, a|} = [a, b]"
  using assms by (auto intro!: sorted_list_of_fset_eqI)

theorem Apply_partial_failure_witness:
  "Apply example_Sheet example_Target True =
     (True, Some [''Gain''],
      example_Target\<lparr>Fields := fmupd ''Lrate'' (Numeric ''0.05'') (Fields example_Target)\<rparr>,
      [''Lrate = 0.05''])
   \<and> filter (settable example_Target (resolve example_Sheet example_Target))
        (sorted_list_of_fset (fmdom (resolve example_Sheet example_Target))) = [''Lrate'']"
proof -
  have n: "is_number ''0.05''"
    by (simp add: is_number_def is_digit_def)
  have e: "Apply example_Sheet example_Target True =
     (True, Some [''Gain''],
      example_Target\<lparr>Fields := fmupd ''Lrate'' (Numeric ''0.05'') (Fields example_Target)\<rparr>,
      [''Lrate = 0.05''])"
    by (simp only: Apply_def example_resolve)
      (simp add: assign_path_def Let_def resolved_value_def example_Target_def n
        sorted_list_of_fset_pair)
  have g: "filter (settable example_Target (resolve example_Sheet example_Target))
        (sorted_list_of_fset (fmdom (resolve example_Sheet example_Target))) = [''Lrate'']"
    by (simp only: example_resolve)
      (simp add: settable_def assigned_def resolved_value_def example_Target_def n
        sorted_list_of_fset_pair)
  show ?thesis
    using Apply_partial_failure [of example_Sheet example_Target True] e g
    by (simp only: simp_thms)
qed


end
